theory Spec2Isabelle
  imports Main
begin

section \<open>Gemilot: the request-to-execution pipeline of \<^verbatim>\<open>gemilot.py\<close>\<close>

text \<open>
  A shallow embedding of the Python program: the string helpers of Python that the
  program calls, the response sanitizer, the script runner of both front ends, the two
  retry loops around the model call, and one turn of each front end.

  Conventions. A Python \<^verbatim>\<open>str\<close> is a \<^typ>\<open>string\<close>; a \<^typ>\<open>char\<close> stands for the
  code point of the same number, so the model covers the code points up to U+00FF.
  Everything the program does to the outside world is written into an explicit state:
  the temporary file \<^verbatim>\<open>temp_commands.bat\<close> and a chronological trace of the calls made
  (console output, model calls, sleeps, file and process operations, chat bubbles).
  What the outside world answers (the model, the file system, the command interpreter)
  is a parameter of each operation. A Python exception is a value of type \<open>exn\<close>, and
  an operation that can raise returns \<open>exn + 'a\<close> with \<open>Inl\<close> for the exception.
  Pure display (the Rich spinner and status line, the Qt widgets and their layout) is
  left out. Printing a literal of the program is taken not to raise; printing a line
  that carries text from outside can raise, as Rich reads it as markup.
\<close>

subsection \<open>Python string operations\<close>

text \<open>\<^verbatim>\<open>str.isspace\<close> on one character, for the code points up to U+00FF: the
  characters 9 to 13, 28 to 32, 133 (NEL) and 160 (no-break space).\<close>

definition isspace :: "char \<Rightarrow> bool" where
  "isspace c =
     (let n = (of_char c :: nat)
      in (9 \<le> n \<and> n \<le> 13) \<or> (28 \<le> n \<and> n \<le> 32) \<or> n = 133 \<or> n = 160)"

text \<open>\<^verbatim>\<open>s.lstrip()\<close>, \<^verbatim>\<open>s.rstrip()\<close> and \<^verbatim>\<open>s.strip()\<close> with no argument.\<close>

definition lstrip :: "string \<Rightarrow> string" where
  "lstrip s = dropWhile isspace s"

definition rstrip :: "string \<Rightarrow> string" where
  "rstrip s = rev (dropWhile isspace (rev s))"

definition strip :: "string \<Rightarrow> string" where
  "strip s = rstrip (lstrip s)"

text \<open>\<^verbatim>\<open>s.startswith(p)\<close>.\<close>

definition startswith :: "string \<Rightarrow> string \<Rightarrow> bool" where
  "startswith s p = (take (length p) s = p)"

text \<open>\<^verbatim>\<open>s.split('\n')\<close>: the pieces between line feeds; never an empty list.\<close>

fun split_nl :: "string \<Rightarrow> string list" where
  "split_nl [] = [[]]"
| "split_nl (c # cs) =
     (if c = CHR 0x0A then [] # split_nl cs
      else (case split_nl cs of
              l # ls \<Rightarrow> (c # l) # ls
            | [] \<Rightarrow> [[c]]))"

text \<open>\<^verbatim>\<open>sep.join(xs)\<close>.\<close>

fun join :: "string \<Rightarrow> string list \<Rightarrow> string" where
  "join sep [] = []"
| "join sep [x] = x"
| "join sep (x # y # ys) = x @ sep @ join sep (y # ys)"

text \<open>\<^verbatim>\<open>s.lower()\<close>, for the code points up to U+00FF: the letters A to Z, and the
  Latin-1 capitals 192 to 222 except the multiplication sign 215, move up by 32.\<close>

definition lower_char :: "char \<Rightarrow> char" where
  "lower_char c =
     (let n = (of_char c :: nat)
      in if (65 \<le> n \<and> n \<le> 90) \<or> (192 \<le> n \<and> n \<le> 222 \<and> n \<noteq> 215)
         then char_of (n + 32) else c)"

definition lower :: "string \<Rightarrow> string" where
  "lower s = map lower_char s"

text \<open>\<^verbatim>\<open>str(n)\<close> for a natural number, as the f-strings of the program print it.\<close>

fun str_nat :: "nat \<Rightarrow> string" where
  "str_nat n =
     (if n < 10 then [''0123456789'' ! n]
      else str_nat (n div 10) @ [''0123456789'' ! (n mod 10)])"

declare str_nat.simps [simp del]

subsection \<open>Response sanitizer\<close>

text \<open>
  \<^verbatim>\<open>GemilotGUI.clean_gemini_response\<close>:
  \<^verbatim>\<open>
    lines = response.strip().split('\n')
    if len(lines) >= 2:
        if lines[0].startswith('```'):
            lines = lines[1:]
        if lines[-1].strip() == '```':
            lines = lines[:-1]
    return '\n'.join(lines)
  \<close>
  Inside the \<^verbatim>\<open>if\<close> the list has at least one element when \<^verbatim>\<open>lines[-1]\<close> is read,
  so that read never raises.
\<close>

definition clean_gemini_response :: "string \<Rightarrow> string" where
  "clean_gemini_response response =
     (let lines0 = split_nl (strip response);
          lines2 =
            (if 2 \<le> length lines0 then
               (let lines1 = (if startswith (hd lines0) ''```'' then tl lines0 else lines0)
                in if strip (last lines1) = ''```'' then butlast lines1 else lines1)
             else lines0)
      in join ''\<newline>'' lines2)"

subsection \<open>Exceptions, the outside world and the state\<close>

text \<open>The exception classes the program raises or meets, each with its message;
  \<open>str_exn\<close> is \<^verbatim>\<open>str(e)\<close>.\<close>

datatype exn =
    Exception string
  | TimeoutError string
  | AttributeError string
  | OSError string
  | MarkupError string

fun str_exn :: "exn \<Rightarrow> string" where
  "str_exn (Exception m) = m"
| "str_exn (TimeoutError m) = m"
| "str_exn (AttributeError m) = m"
| "str_exn (OSError m) = m"
| "str_exn (MarkupError m) = m"

text \<open>
  The calls the program makes to the outside, in the order it makes them:
  \<^item> \<open>Print t\<close>: a call \<^verbatim>\<open>console.print(t)\<close> that returned; \<open>t\<close> is the line handed to
    Rich, markup included;
  \<^item> \<open>Farewell\<close>: the print of the farewell line of \<^verbatim>\<open>exit\<close>, a literal of the program
    (\<^verbatim>\<open>Goodbye!\<close> and an emoji, a code point above U+00FF);
  \<^item> \<open>Panel title body\<close>: \<^verbatim>\<open>console.print(Panel(body, title=title))\<close>;
  \<^item> \<open>WelcomePanel\<close>, \<open>HelpPanel\<close>: the two panels of fixed Markdown text;
  \<^item> \<open>Ask\<close>: \<^verbatim>\<open>Prompt.ask\<close>;
  \<^item> \<open>ModelCall p\<close>: \<^verbatim>\<open>model.generate_content(p)\<close>;
  \<^item> \<open>Sleep n\<close>: \<^verbatim>\<open>time.sleep(n)\<close>;
  \<^item> \<open>OpenWrite c\<close>: \<^verbatim>\<open>open("temp_commands.bat", "w", ...)\<close> followed by \<^verbatim>\<open>f.write(c)\<close>;
  \<^item> \<open>Popen\<close>: \<^verbatim>\<open>subprocess.Popen(["cmd.exe", "/c", "temp_commands.bat"], ...)\<close>
    followed by \<^verbatim>\<open>communicate()\<close>;
  \<^item> \<open>Remove\<close>: \<^verbatim>\<open>os.remove("temp_commands.bat")\<close>;
  \<^item> \<open>AddMessage t u\<close>: \<^verbatim>\<open>GemilotGUI.add_message(t, is_user=u)\<close>, a chat bubble.
\<close>

datatype event =
    Print string
  | Panel string string
  | WelcomePanel
  | HelpPanel
  | Farewell
  | Ask
  | ModelCall string
  | Sleep nat
  | OpenWrite string
  | Popen
  | Remove
  | AddMessage string bool

text \<open>
  The state: the contents of \<^verbatim>\<open>temp_commands.bat\<close> (\<open>None\<close> when the file does not
  exist), the trace of calls so far, and \<^verbatim>\<open>GemilotCLI.command_history\<close>.
\<close>

record state =
  tempfile :: "string option"
  trace :: "event list"
  command_history :: "string list"

text \<open>
  What the outside world answers.
  \<^item> One model call (\<^verbatim>\<open>generate_content(prompt).text\<close>) returns a text or raises an
    exception with a message. In the CLI the call runs in a worker thread and
    \<^verbatim>\<open>future.result(timeout=30)\<close> delivers that outcome, or raises the timeout error
    of \<^verbatim>\<open>concurrent.futures\<close>: the outcome \<open>TimedOut\<close>, which is what the first
    \<^verbatim>\<open>except\<close> clause catches. Where that class is the builtin \<^verbatim>\<open>TimeoutError\<close>
    (Python 3.11 on) a call that itself raises \<^verbatim>\<open>TimeoutError\<close> is caught by the same
    clause and is the outcome \<open>TimedOut\<close> too; \<open>Done (Raises m)\<close> is an exception that
    reaches the second clause. Constructing \<^verbatim>\<open>genai.GenerativeModel\<close> is taken not to
    raise.
  \<^item> Opening and writing the temporary file succeeds, or \<^verbatim>\<open>open\<close> raises and leaves
    the file system as it was, or \<^verbatim>\<open>write\<close> raises after \<^verbatim>\<open>open\<close> has created an
    empty file.
  \<^item> The interpreter runs and yields its standard output, standard error and exit
    code, or \<^verbatim>\<open>Popen\<close>/\<^verbatim>\<open>communicate\<close> raises. The script itself is taken to leave
    \<^verbatim>\<open>temp_commands.bat\<close> alone, and \<^verbatim>\<open>os.remove\<close> is taken to succeed.
  \<^item> Rich, on a line to print that it reads as markup: \<open>rich line\<close> is the message of
    the \<^verbatim>\<open>MarkupError\<close> it raises on that line, or \<open>None\<close> when it prints the line.
\<close>

datatype call = Reply string | Raises string

datatype attempt = Done call | TimedOut

datatype write_outcome = Written | OpenFails string | WriteFails string

datatype proc_outcome = Ran string string int | PopenFails string

record os_env =
  file_write :: write_outcome
  interpreter :: proc_outcome

record cli_env = os_env +
  attempts :: "nat \<Rightarrow> attempt"
  rich :: "string \<Rightarrow> string option"

record gui_env = os_env +
  calls :: "nat \<Rightarrow> call"

text \<open>Statements in sequence, \<^verbatim>\<open>raise\<close> and \<^verbatim>\<open>try: ... except Exception as e: ...\<close>
  over a state: an exception skips the rest of a sequence and enters the handler.\<close>

type_synonym 'a io = "state \<Rightarrow> (exn + 'a) \<times> state"

definition io_return :: "'a \<Rightarrow> 'a io" where
  "io_return x s = (Inr x, s)"

definition io_raise :: "exn \<Rightarrow> 'a io" where
  "io_raise e s = (Inl e, s)"

definition io_do :: "(state \<Rightarrow> state) \<Rightarrow> unit io" where
  "io_do f s = (Inr (), f s)"

definition io_bind :: "'a io \<Rightarrow> ('a \<Rightarrow> 'b io) \<Rightarrow> 'b io" where
  "io_bind m f s = (case m s of (Inl e, s') \<Rightarrow> (Inl e, s') | (Inr x, s') \<Rightarrow> f x s')"

definition io_try :: "'a io \<Rightarrow> (exn \<Rightarrow> 'a io) \<Rightarrow> 'a io" where
  "io_try m handler s = (case m s of (Inl e, s') \<Rightarrow> handler e s' | (Inr x, s') \<Rightarrow> (Inr x, s'))"

definition emit :: "event \<Rightarrow> state \<Rightarrow> state" where
  "emit e s = s\<lparr>trace := trace s @ [e]\<rparr>"

text \<open>Text mode with \<^verbatim>\<open>newline='\r\n'\<close>: every line feed written reaches the disk
  as carriage return, line feed.\<close>

definition translate_newlines :: "string \<Rightarrow> string" where
  "translate_newlines c =
     concat (map (\<lambda>x. if x = CHR 0x0A then [CHR 0x0D, CHR 0x0A] else [x]) c)"

text \<open>\<^verbatim>\<open>with open("temp_commands.bat", "w", encoding='utf-8', newline='\r\n') as f:
  f.write(batch_content)\<close>\<close>

definition write_temp :: "write_outcome \<Rightarrow> string \<Rightarrow> unit io" where
  "write_temp outcome content s =
     (let s1 = emit (OpenWrite content) s
      in case outcome of
           Written \<Rightarrow> (Inr (), s1\<lparr>tempfile := Some (translate_newlines content)\<rparr>)
         | OpenFails m \<Rightarrow> (Inl (OSError m), s1)
         | WriteFails m \<Rightarrow> (Inl (OSError m), s1\<lparr>tempfile := Some []\<rparr>))"

text \<open>\<^verbatim>\<open>process = subprocess.Popen(...); stdout, stderr = process.communicate()\<close>\<close>

definition popen_communicate :: "proc_outcome \<Rightarrow> (string \<times> string) io" where
  "popen_communicate outcome s =
     (let s1 = emit Popen s
      in case outcome of
           Ran out err rc \<Rightarrow> (Inr (out, err), s1)
         | PopenFails m \<Rightarrow> (Inl (OSError m), s1))"

text \<open>\<^verbatim>\<open>if os.path.exists("temp_commands.bat"): os.remove("temp_commands.bat")\<close>\<close>

definition cleanup :: "state \<Rightarrow> state" where
  "cleanup s =
     (case tempfile s of
        None \<Rightarrow> s
      | Some c \<Rightarrow> emit Remove (s\<lparr>tempfile := None\<rparr>))"

subsection \<open>Script runner\<close>

text \<open>
  The batch text both front ends compose:
  \<^verbatim>\<open>
    commands = [cmd.strip() for cmd in commands if cmd.strip()]
    batch_content = "@echo off\r\n"
    batch_content += "\r\n".join(commands)
  \<close>
\<close>

definition crlf :: string where
  "crlf = [CHR 0x0D, CHR 0x0A]"

definition batch_content :: "string list \<Rightarrow> string" where
  "batch_content commands =
     ''@echo off'' @ crlf @ join crlf (map strip (filter (\<lambda>cmd. strip cmd \<noteq> []) commands))"

text \<open>\<^verbatim>\<open>GemilotCLI.create_batch_file\<close>: any exception is re-raised with a prefix; the
  handler does not touch the file.\<close>

definition create_batch_file :: "write_outcome \<Rightarrow> string list \<Rightarrow> unit io" where
  "create_batch_file wr commands =
     io_try (write_temp wr (batch_content commands))
       (\<lambda>e. io_raise (Exception (''Error creating batch file: '' @ str_exn e)))"

text \<open>
  \<^verbatim>\<open>GemilotCLI.execute_batch_file\<close>: run the interpreter, remove the file, raise when
  standard error is not empty, else return standard output; the handler removes the
  file and re-raises with a prefix. The result \<open>Some out\<close> is the returned string.
\<close>

definition execute_batch_file :: "proc_outcome \<Rightarrow> string option io" where
  "execute_batch_file pr =
     io_try
       (io_bind (popen_communicate pr) (\<lambda>(stdout, stderr).
        io_bind (io_do cleanup) (\<lambda>_.
          if stderr \<noteq> [] then io_raise (Exception stderr)
          else io_return (Some stdout))))
       (\<lambda>e. io_bind (io_do cleanup) (\<lambda>_.
          io_raise (Exception (''Error executing batch file: '' @ str_exn e))))"

text \<open>
  \<^verbatim>\<open>GemilotGUI.execute_commands\<close>: compose, write, run, remove, raise when standard
  error is not empty; the handler removes the file and re-raises
  \<^verbatim>\<open>Exception(str(e))\<close>. The function has no \<^verbatim>\<open>return\<close> statement: on success its
  value is Python's \<^verbatim>\<open>None\<close>, here \<open>None\<close>.
\<close>

definition execute_commands :: "'a os_env_scheme \<Rightarrow> string list \<Rightarrow> string option io" where
  "execute_commands env commands =
     io_try
       (io_bind (write_temp (file_write env) (batch_content commands)) (\<lambda>_.
        io_bind (popen_communicate (interpreter env)) (\<lambda>(stdout, stderr).
        io_bind (io_do cleanup) (\<lambda>_.
          if stderr \<noteq> [] then io_raise (Exception stderr)
          else io_return None))))
       (\<lambda>e. io_bind (io_do cleanup) (\<lambda>_. io_raise (Exception (str_exn e))))"

text \<open>
  \<^verbatim>\<open>GemilotCLI.__init__\<close> sets \<^verbatim>\<open>console\<close>, \<^verbatim>\<open>command_history\<close> and \<^verbatim>\<open>start_time\<close>
  only, and the class has no base class: reading \<^verbatim>\<open>self.output_area\<close> or
  \<^verbatim>\<open>self.statusBar\<close> on a \<^verbatim>\<open>GemilotCLI\<close> object raises \<^verbatim>\<open>AttributeError\<close>,
  whose message \<open>no_attribute\<close> spells (\<open>CHR 0x27\<close> is the single quote).
\<close>

definition no_attribute :: "string \<Rightarrow> string \<Rightarrow> string" where
  "no_attribute cls name =
     [CHR 0x27] @ cls @ [CHR 0x27] @ '' object has no attribute '' @ [CHR 0x27] @ name @ [CHR 0x27]"

definition cli_output_area_append :: "string \<Rightarrow> unit io" where
  "cli_output_area_append text =
     io_raise (AttributeError (no_attribute ''GemilotCLI'' ''output_area''))"

definition cli_statusBar_showMessage :: "string \<Rightarrow> unit io" where
  "cli_statusBar_showMessage text =
     io_raise (AttributeError (no_attribute ''GemilotCLI'' ''statusBar''))"

text \<open>
  \<^verbatim>\<open>GemilotCLI.execute_local_command\<close>, statement by statement. The handler of its
  \<^verbatim>\<open>try\<close> reports through \<^verbatim>\<open>self.output_area\<close> and \<^verbatim>\<open>self.statusBar()\<close> and does not
  remove the file.
\<close>

definition execute_local_command :: "'a os_env_scheme \<Rightarrow> string \<Rightarrow> unit io" where
  "execute_local_command env command =
     io_try
       (io_bind (write_temp (file_write env) (''@echo off'' @ crlf @ strip command)) (\<lambda>_.
        io_bind (cli_output_area_append
          (''<span style='color: #4EC9B0;'>Executing local command: '' @ command @ ''</span>'')) (\<lambda>_.
        io_bind (popen_communicate (interpreter env)) (\<lambda>(stdout, stderr).
        io_bind (io_do cleanup) (\<lambda>_.
        io_bind (if stdout \<noteq> [] then
                   io_bind (cli_output_area_append ''<span style='color: #DCDCAA;'>Output:</span>'')
                     (\<lambda>_. cli_output_area_append stdout)
                 else io_return ()) (\<lambda>_.
        io_bind (if stderr \<noteq> [] then
                   io_bind (cli_output_area_append ''<span style='color: #F14C4C;'>Errors:</span>'')
                     (\<lambda>_. cli_output_area_append stderr)
                 else io_return ()) (\<lambda>_.
        io_bind (cli_output_area_append
          ''<span style='color: #4EC9B0;'>Command executed successfully!</span>'') (\<lambda>_.
        cli_statusBar_showMessage ''Ready''))))))))
       (\<lambda>e.
        io_bind (cli_output_area_append
          (''<span style='color: #F14C4C;'>Error executing command: '' @ str_exn e @ ''</span>'')) (\<lambda>_.
        cli_statusBar_showMessage ''Error occurred''))"

subsection \<open>Model client\<close>

definition max_retries :: nat where
  "max_retries = 3"

definition retry_delay :: nat where
  "retry_delay = 2"

text \<open>
  One pass through the \<^verbatim>\<open>try\<close> body of \<^verbatim>\<open>GemilotCLI.get_gemini_response\<close>: the call
  is submitted and \<^verbatim>\<open>future.result(timeout=30)\<close> returns the text, or what the first
  \<^verbatim>\<open>except\<close> clause catches is re-raised as \<^verbatim>\<open>TimeoutError\<close> with a fixed message, or
  any other exception is re-raised as \<^verbatim>\<open>Exception\<close> with a prefix.
\<close>

fun attempt_result :: "attempt \<Rightarrow> exn + string" where
  "attempt_result (Done (Reply text)) = Inr text"
| "attempt_result TimedOut =
     Inl (TimeoutError ''The request took too long to complete. Please try again.'')"
| "attempt_result (Done (Raises m)) =
     Inl (Exception (''Error getting response from Gemini: '' @ m))"

definition cli_attempt :: "attempt \<Rightarrow> string \<Rightarrow> string io" where
  "cli_attempt a prompt s = (attempt_result a, emit (ModelCall prompt) s)"

text \<open>
  \<^verbatim>\<open>for retry in range(max_retries)\<close> of \<^verbatim>\<open>get_gemini_response\<close>, from the index
  \<open>retry\<close> on. \<open>att i\<close> is what the world answers to the attempt with index \<open>i\<close>.
  A loop that ran out without returning or raising would make the function return
  Python's \<^verbatim>\<open>None\<close>, here \<open>Inr None\<close>.
\<close>

function get_gemini_loop :: "(nat \<Rightarrow> attempt) \<Rightarrow> string \<Rightarrow> nat \<Rightarrow> string option io" where
  "get_gemini_loop att prompt retry s =
     (if retry < max_retries then
        (case cli_attempt (att retry) prompt s of
           (Inr response, s1) \<Rightarrow> (Inr (Some response), s1)
         | (Inl e, s1) \<Rightarrow>
             if retry < max_retries - 1 then
               get_gemini_loop att prompt (retry + 1)
                 (emit (Sleep retry_delay)
                   (emit (Print (''[yellow]Connection error, retrying in '' @ str_nat retry_delay
                      @ '' seconds... (Attempt '' @ str_nat (retry + 1) @ ''/''
                      @ str_nat max_retries @ '')[/yellow]'')) s1))
             else
               (Inl (Exception (''Failed to get response after '' @ str_nat max_retries
                  @ '' attempts: '' @ str_exn e)), s1))
      else (Inr None, s))"
  by pat_completeness auto
termination
  by (relation "measure (\<lambda>(att, prompt, retry, s). max_retries - retry)") auto

declare get_gemini_loop.simps [simp del]

definition get_gemini_response :: "(nat \<Rightarrow> attempt) \<Rightarrow> string \<Rightarrow> string option io" where
  "get_gemini_response att prompt = get_gemini_loop att prompt 0"

text \<open>
  \<^verbatim>\<open>GeminiWorker.run\<close>: \<^verbatim>\<open>while retries < self.max_retries\<close>, with the local variables
  \<open>retries\<close> and \<open>last_error\<close>. The worker answers through its two Qt signals; the
  list collects the signals emitted, in order. A text ends the method; an exception is
  counted, and either the thread sleeps or the \<open>error\<close> signal is emitted, and the
  loop condition is tested again.
\<close>

datatype signal = Finished string | Failed string

function worker_loop ::
  "(nat \<Rightarrow> call) \<Rightarrow> string \<Rightarrow> nat \<Rightarrow> string option \<Rightarrow> signal list \<times> state \<Rightarrow> signal list \<times> state"
where
  "worker_loop cs prompt retries last_error (sigs, s) =
     (if retries < max_retries then
        (case cs retries of
           Reply text \<Rightarrow> (sigs @ [Finished text], emit (ModelCall prompt) s)
         | Raises m \<Rightarrow>
             if retries + 1 < max_retries then
               worker_loop cs prompt (retries + 1) (Some m)
                 (sigs, emit (Sleep retry_delay) (emit (ModelCall prompt) s))
             else
               worker_loop cs prompt (retries + 1) (Some m)
                 (sigs @ [Failed (''Connection error after '' @ str_nat (retries + 1)
                    @ '' attempts: '' @ m)],
                  emit (ModelCall prompt) s))
      else (sigs, s))"
  by pat_completeness auto
termination
  by (relation "measure (\<lambda>(cs, prompt, retries, last_error, acc). max_retries - retries)") auto

declare worker_loop.simps [simp del]

definition worker_run :: "(nat \<Rightarrow> call) \<Rightarrow> string \<Rightarrow> state \<Rightarrow> signal list \<times> state" where
  "worker_run cs prompt s = worker_loop cs prompt 0 None ([], s)"

subsection \<open>Panel shell (GUI)\<close>

definition add_message :: "string \<Rightarrow> bool \<Rightarrow> state \<Rightarrow> state" where
  "add_message text is_user s = emit (AddMessage text is_user) s"

text \<open>The f-string of \<^verbatim>\<open>process_command\<close>; its continuation lines are indented by
  eight spaces, and the first line ends in a space.\<close>

definition gui_prompt :: "string \<Rightarrow> string" where
  "gui_prompt command =
     ''Convert the following request into Windows batch commands. \<newline>''
     @ ''        Only output the batch commands, nothing else. Each command should be on a new line.\<newline>''
     @ ''        If the request is not possible or unsafe, respond with 'ERROR: [reason]'' @ [CHR 0x27]
     @ ''\<newline>        \<newline>        Request: '' @ command"

text \<open>\<^verbatim>\<open>GemilotGUI.handle_gemini_response\<close> and \<^verbatim>\<open>handle_gemini_error\<close>, the slots of
  the two signals.\<close>

definition handle_gemini_response :: "gui_env \<Rightarrow> string \<Rightarrow> state \<Rightarrow> state" where
  "handle_gemini_response env response s =
     (if startswith response ''ERROR:'' then add_message (drop 6 response) False s
      else
        (let cleaned_response = clean_gemini_response response;
             s1 = add_message (''Executing commands:\<newline>'' @ cleaned_response) False s
         in case execute_commands env (split_nl cleaned_response) s1 of
              (Inr r, s2) \<Rightarrow> add_message ''Commands executed successfully!'' False s2
            | (Inl e, s2) \<Rightarrow> add_message (''Error executing commands: '' @ str_exn e) False s2))"

definition handle_gemini_error :: "string \<Rightarrow> state \<Rightarrow> state" where
  "handle_gemini_error error_message s = add_message (''Error: '' @ error_message) False s"

fun deliver :: "gui_env \<Rightarrow> state \<Rightarrow> signal \<Rightarrow> state" where
  "deliver env s (Finished response) = handle_gemini_response env response s"
| "deliver env s (Failed error_message) = handle_gemini_error error_message s"

text \<open>
  One turn of the panel: \<^verbatim>\<open>GemilotGUI.process_command\<close> on the text of the input
  field, the worker it starts, and the slots run for the signals the worker emits.
\<close>

definition process_command :: "gui_env \<Rightarrow> string \<Rightarrow> state \<Rightarrow> state" where
  "process_command env text s =
     (let command = strip text
      in if command = [] then s
         else
           (let s1 = add_message command True s
            in case worker_run (calls env) (gui_prompt command) s1 of
                 (sigs, s2) \<Rightarrow> foldl (deliver env) s2 sigs))"

subsection \<open>Session shell (CLI)\<close>

text \<open>The f-string of \<^verbatim>\<open>GemilotCLI.run\<close>; its continuation lines are indented by
  sixteen spaces.\<close>

definition cli_prompt :: "string \<Rightarrow> string" where
  "cli_prompt user_input =
     ''Convert the following request into Windows batch commands. \<newline>''
     @ ''                Only output the batch commands, nothing else. Each command should be on a new line.\<newline>''
     @ ''                If the request is not possible or unsafe, respond with 'ERROR: [reason]'' @ [CHR 0x27]
     @ ''\<newline>                \<newline>                Request: '' @ user_input"

text \<open>
  \<^verbatim>\<open>console.print\<close> of a line that carries text from outside the program (a model
  reply, the message of an exception, the history): Rich reads the whole line as markup.
  A text without an opening square bracket holds no tag, and the line prints; otherwise
  Rich may raise \<^verbatim>\<open>MarkupError\<close>, as the world's answer tells for the line. The
  labels of the program are balanced markup.
\<close>

definition rich_raises :: "(string \<Rightarrow> string option) \<Rightarrow> string \<Rightarrow> string \<Rightarrow> exn option" where
  "rich_raises answer label text =
     (if CHR ''['' \<in> set text then map_option MarkupError (answer (label @ text)) else None)"

definition console_print :: "(string \<Rightarrow> string option) \<Rightarrow> string \<Rightarrow> string \<Rightarrow> unit io" where
  "console_print answer label text =
     (case rich_raises answer label text of
        Some e \<Rightarrow> io_raise e
      | None \<Rightarrow> io_do (emit (Print (label @ text))))"

definition show_welcome_message :: "state \<Rightarrow> state" where
  "show_welcome_message s = emit WelcomePanel s"

definition show_help :: "state \<Rightarrow> state" where
  "show_help s = emit HelpPanel s"

text \<open>\<^verbatim>\<open>show_history\<close>: the entries numbered from 1, one per line, in a panel whose
  body Rich reads as markup.\<close>

definition history_text :: "string list \<Rightarrow> string" where
  "history_text h =
     join ''\<newline>'' (map (\<lambda>(i, cmd). str_nat (i + 1) @ ''. '' @ cmd) (enumerate 0 h))"

definition show_history :: "(string \<Rightarrow> string option) \<Rightarrow> unit io" where
  "show_history answer s =
     (if command_history s = [] then
        io_do (emit (Print ''[yellow]No commands in history yet.[/yellow]'')) s
      else
        (case rich_raises answer [] (history_text (command_history s)) of
           Some e \<Rightarrow> io_raise e s
         | None \<Rightarrow>
             io_do (emit (Panel ''Command History'' (history_text (command_history s)))) s))"

definition show_command_preview :: "string list \<Rightarrow> state \<Rightarrow> state" where
  "show_command_preview commands s = emit (Panel ''Command Preview'' (join ''\<newline>'' commands)) s"

definition offer_fallback :: "state \<Rightarrow> state" where
  "offer_fallback s =
     s\<lparr>trace := trace s @
       [Print ''\<newline>[bold cyan]Would you like to try a local fallback for common commands?[/bold cyan]'',
        Print ''Common commands that can be handled locally:'',
        Print ''- Open applications (notepad, chrome, etc.)'',
        Print ''- Create folders'',
        Print ''- Basic file operations'',
        Print ''\<newline>Try these commands:'',
        Print (''- Type 'local: open notepad' to open Notepad''),
        Print (''- Type 'local: open chrome' to open Chrome''),
        Print (''- Type 'local: mkdir test_folder' to create a test folder'')]\<rparr>"

text \<open>\<^verbatim>\<open>GemilotCLI\<close> defines no method \<^verbatim>\<open>clean_gemini_response\<close> (only \<^verbatim>\<open>GemilotGUI\<close>
  does): the call \<^verbatim>\<open>self.clean_gemini_response(response)\<close> in \<^verbatim>\<open>run\<close> raises.\<close>

definition cli_clean_gemini_response :: "string \<Rightarrow> string io" where
  "cli_clean_gemini_response response =
     io_raise (AttributeError (no_attribute ''GemilotCLI'' ''clean_gemini_response''))"

text \<open>
  The inner \<^verbatim>\<open>try\<close> body of \<^verbatim>\<open>run\<close> after the model call: the \<^verbatim>\<open>ERROR:\<close> test, then
  sanitizer, preview, batch file, execution. \<^verbatim>\<open>response.startswith\<close> on \<^verbatim>\<open>None\<close>
  would raise \<^verbatim>\<open>AttributeError\<close>.
\<close>

definition cli_handle_response :: "cli_env \<Rightarrow> string option \<Rightarrow> unit io" where
  "cli_handle_response env response =
     (case response of
        None \<Rightarrow> io_raise (AttributeError (no_attribute ''NoneType'' ''startswith''))
      | Some r \<Rightarrow>
          if startswith r ''ERROR:'' then
            io_bind (console_print (rich env) ''[bold red]Error:[/bold red] '' (drop 6 r)) (\<lambda>_.
            io_do offer_fallback)
          else
            io_bind (cli_clean_gemini_response r) (\<lambda>cleaned_response.
            io_bind (io_do (show_command_preview (split_nl cleaned_response))) (\<lambda>_.
            io_bind (create_batch_file (file_write env) (split_nl cleaned_response)) (\<lambda>_.
            io_bind (execute_batch_file (interpreter env)) (\<lambda>_.
            io_do (emit (Print ''[bold green]Commands executed successfully![/bold green]'')))))))"

text \<open>The whole inner \<^verbatim>\<open>try\<close> body: the model call, then the rest.\<close>

definition cli_request :: "cli_env \<Rightarrow> string \<Rightarrow> unit io" where
  "cli_request env user_input =
     io_bind (get_gemini_response (attempts env) (cli_prompt user_input))
       (cli_handle_response env)"

text \<open>The two handlers of the inner \<^verbatim>\<open>try\<close>: each prints the message of the
  exception and offers the fallback.\<close>

fun cli_inner_handler :: "cli_env \<Rightarrow> exn \<Rightarrow> unit io" where
  "cli_inner_handler env (TimeoutError m) =
     io_bind (console_print (rich env) ''[bold red]Timeout Error:[/bold red] '' m) (\<lambda>_.
     io_do offer_fallback)"
| "cli_inner_handler env e =
     io_bind (console_print (rich env) ''[bold red]Error:[/bold red] '' (str_exn e)) (\<lambda>_.
     io_do offer_fallback)"

text \<open>
  One pass through the \<^verbatim>\<open>while True\<close> body of \<^verbatim>\<open>run\<close> on the line the user typed.
  The value is \<open>False\<close> after \<^verbatim>\<open>break\<close> and \<open>True\<close> when the loop goes on. An
  exception raised in the body, the inner handlers included, enters the outer handler,
  which prints its message; an exception raised by that print leaves \<^verbatim>\<open>run\<close>, here the
  result \<open>Inl\<close>.
\<close>

definition cli_turn :: "cli_env \<Rightarrow> string \<Rightarrow> bool io" where
  "cli_turn env line =
     io_try
       (io_bind (io_do (emit Ask)) (\<lambda>_.
        (let user_input = strip line
         in if lower user_input = ''exit'' then
              io_bind (io_do (emit Farewell)) (\<lambda>_. io_return False)
            else if lower user_input = ''help'' then
              io_bind (io_do show_help) (\<lambda>_. io_return True)
            else if lower user_input = ''history'' then
              io_bind (show_history (rich env)) (\<lambda>_. io_return True)
            else if startswith (lower user_input) ''local:'' then
              io_bind (execute_local_command env (strip (drop 6 user_input))) (\<lambda>_.
              io_return True)
            else
              io_bind (io_do (\<lambda>s. s\<lparr>command_history := command_history s @ [user_input]\<rparr>)) (\<lambda>_.
              io_bind (io_try (cli_request env user_input) (cli_inner_handler env)) (\<lambda>_.
              io_return True)))))
       (\<lambda>e.
        io_bind (console_print (rich env) ''[bold red]An error occurred:[/bold red] '' (str_exn e)) (\<lambda>_.
        io_return True))"

text \<open>
  The loop of \<^verbatim>\<open>run\<close> over the lines typed so far, each with the world's answers
  during its turn. The loop ends at \<^verbatim>\<open>exit\<close>, where \<^verbatim>\<open>run\<close> returns, or with an
  exception that leaves \<^verbatim>\<open>run\<close>; otherwise it waits for the next line. The state is the
  one reached then. \<open>turns_run\<close> counts the turns taken.
\<close>

datatype run_status = Waiting | Returned | Crashed exn

fun cli_loop :: "(string \<times> cli_env) list \<Rightarrow> state \<Rightarrow> run_status \<times> state" where
  "cli_loop [] s = (Waiting, s)"
| "cli_loop ((line, env) # rest) s =
     (case cli_turn env line s of
        (Inr True, s') \<Rightarrow> cli_loop rest s'
      | (Inr False, s') \<Rightarrow> (Returned, s')
      | (Inl e, s') \<Rightarrow> (Crashed e, s'))"

fun turns_run :: "(string \<times> cli_env) list \<Rightarrow> state \<Rightarrow> nat" where
  "turns_run [] s = 0"
| "turns_run ((line, env) # rest) s =
     (case cli_turn env line s of
        (Inr True, s') \<Rightarrow> Suc (turns_run rest s')
      | (Inr False, s') \<Rightarrow> 1
      | (Inl e, s') \<Rightarrow> 1)"

definition run :: "(string \<times> cli_env) list \<Rightarrow> state \<Rightarrow> run_status \<times> state" where
  "run inputs s = cli_loop inputs (show_welcome_message s)"

text \<open>A fresh \<^verbatim>\<open>GemilotCLI\<close> on a disk without the temporary file.\<close>

definition initial :: state where
  "initial = \<lparr>tempfile = None, trace = [], command_history = []\<rparr>"

subsection \<open>Vocabulary of the statements\<close>

text \<open>The calls that belong to the script runner.\<close>

fun runner_event :: "event \<Rightarrow> bool" where
  "runner_event (OpenWrite c) = True"
| "runner_event Popen = True"
| "runner_event Remove = True"
| "runner_event e = False"

text \<open>The trimmed inputs that \<^verbatim>\<open>run\<close> treats as a request: not one of the three
  reserved words and not a \<^verbatim>\<open>local:\<close> line, all compared in lower case.\<close>

definition is_request :: "string \<Rightarrow> bool" where
  "is_request user_input =
     (lower user_input \<noteq> ''exit'' \<and> lower user_input \<noteq> ''help''
      \<and> lower user_input \<noteq> ''history'' \<and> \<not> startswith (lower user_input) ''local:'')"

text \<open>A line of a text that, once trimmed, starts with the fence marker.\<close>

definition fence_line :: "string \<Rightarrow> bool" where
  "fence_line l = startswith (strip l) ''```''"

fun crashed :: "run_status \<Rightarrow> bool" where
  "crashed (Crashed e) = True"
| "crashed st = False"

text \<open>
  Rich on a line in which the tag \<^verbatim>\<open>q\<close> is never opened and every tag before the first
  \<^verbatim>\<open>[/q]\<close> is closed: it raises \<^verbatim>\<open>MarkupError\<close> at that closing tag and names the index
  of its bracket in the line. \<open>find_sub p t n\<close> is the index of the first occurrence of
  \<open>p\<close> in \<open>t\<close>, counted from \<open>n\<close>.
\<close>

fun find_sub :: "string \<Rightarrow> string \<Rightarrow> nat \<Rightarrow> nat option" where
  "find_sub p [] n = (if p = [] then Some n else None)"
| "find_sub p (c # cs) n =
     (if take (length p) (c # cs) = p then Some n else find_sub p cs (n + 1))"

definition unmatched_closing_q :: "string \<Rightarrow> string option" where
  "unmatched_closing_q line =
     (case find_sub ''[/q]'' line 0 of
        None \<Rightarrow> None
      | Some n \<Rightarrow>
          Some (''closing tag '' @ [CHR 0x27] @ ''[/q]'' @ [CHR 0x27] @ '' at position ''
                @ str_nat n @ '' doesn'' @ [CHR 0x27] @ ''t match any open tag''))"

subsection \<open>Properties of the sanitizer\<close>

lemma isspace_simps [simp]:
  "isspace CHR 0x0A" "isspace CHR 0x0D" "isspace CHR '' ''"
  "\<not> isspace CHR ''`''"
  by (simp_all add: isspace_def)

text \<open>
  Claim C6. For the raw text made of the four lines \<^verbatim>\<open>```\<close>, \<^verbatim>\<open>commandA\<close>,
  \<^verbatim>\<open>commandB\<close>, \<^verbatim>\<open>```\<close>, the sanitizer returns exactly \<^verbatim>\<open>commandA\<close>, a line feed,
  \<^verbatim>\<open>commandB\<close>.
\<close>

theorem clean_fenced_block:
  "clean_gemini_response ''```\<newline>commandA\<newline>commandB\<newline>```''
   = ''commandA\<newline>commandB''"
  by (simp add: clean_gemini_response_def strip_def lstrip_def rstrip_def startswith_def
      isspace_def)

text \<open>Splitting at line feeds and joining with line feeds are inverse; splitting
  distributes over concatenation, the last piece of the left part and the first piece of
  the right part forming one line.\<close>

lemma split_nl_nonempty [simp]: "split_nl s \<noteq> []"
  by (induction s) (auto split: list.splits)

lemma join_Cons_char: "join sep ((c # l) # ls) = c # join sep (l # ls)"
  by (cases ls) simp_all

lemma join_Nil_Cons: "ls \<noteq> [] \<Longrightarrow> join sep ([] # ls) = sep @ join sep ls"
  by (cases ls) simp_all

lemma join_split_nl: "join ''\<newline>'' (split_nl s) = s"
proof (induction s)
  case Nil
  show ?case by simp
next
  case (Cons c cs)
  show ?case
  proof (cases "c = CHR 0x0A")
    case True
    with Cons show ?thesis by (simp add: join_Nil_Cons)
  next
    case False
    obtain l ls where sp: "split_nl cs = l # ls"
      by (cases "split_nl cs") simp_all
    with False Cons show ?thesis by (simp add: join_Cons_char)
  qed
qed

lemma split_nl_append:
  "split_nl (x @ y) =
     butlast (split_nl x) @ [last (split_nl x) @ hd (split_nl y)] @ tl (split_nl y)"
proof (induction x)
  case Nil
  show ?case by simp
next
  case (Cons c x)
  obtain l ls where sp: "split_nl x = l # ls"
    by (cases "split_nl x") simp_all
  show ?case
  proof (cases "c = CHR 0x0A")
    case True
    with Cons sp show ?thesis by simp
  next
    case False
    with Cons sp show ?thesis by (cases ls) simp_all
  qed
qed

lemma set_split_nl: "l \<in> set (split_nl x) \<Longrightarrow> set l \<subseteq> set x"
proof (induction x arbitrary: l)
  case Nil
  then show ?case by simp
next
  case (Cons c x)
  obtain l0 ls where sp: "split_nl x = l0 # ls"
    by (cases "split_nl x") simp_all
  have tail: "set l' \<subseteq> set x" if "l' = l0 \<or> l' \<in> set ls" for l'
    using that Cons.IH [of l'] sp by auto
  show ?case
  proof (cases "c = CHR 0x0A")
    case True
    with Cons.prems sp have "l = [] \<or> l = l0 \<or> l \<in> set ls" by simp
    with tail [of l] show ?thesis by auto
  next
    case False
    with Cons.prems sp have "l = c # l0 \<or> l \<in> set ls" by simp
    with tail [of l0] tail [of l] show ?thesis by auto
  qed
qed

lemma lstrip_ws_append: "list_all isspace a \<Longrightarrow> lstrip (a @ x) = lstrip x"
  by (simp add: lstrip_def list_all_iff)

lemma rstrip_ws_append: "list_all isspace b \<Longrightarrow> rstrip (x @ b) = rstrip x"
  using dropWhile_append2 [of "rev b" isspace "rev x"]
  by (simp add: rstrip_def list_all_iff)

lemma strip_ws_append:
  assumes "list_all isspace a" and "list_all isspace b"
  shows "strip (a @ x @ b) = strip x"
proof (cases "list_all isspace x")
  case True
  with assms have "lstrip (a @ x @ b) = []" "lstrip x = []"
    by (simp_all add: lstrip_def list_all_iff)
  then show ?thesis by (simp add: strip_def)
next
  case False
  then have "lstrip (x @ b) = lstrip x @ b"
    by (auto simp add: lstrip_def list_all_iff dropWhile_append)
  with assms show ?thesis
    by (simp add: strip_def lstrip_ws_append rstrip_ws_append)
qed

lemma strip_decompose:
  "\<exists>a b. list_all isspace a \<and> list_all isspace b \<and> text = a @ strip text @ b"
proof -
  let ?a = "takeWhile isspace text"
  let ?u = "lstrip text"
  let ?b = "rev (takeWhile isspace (rev ?u))"
  have "rev (rstrip ?u @ ?b) = rev ?u" by (simp add: rstrip_def)
  then have u: "?u = rstrip ?u @ ?b" by (simp only: rev_is_rev_conv)
  have "text = ?a @ ?u" by (simp add: lstrip_def)
  with u have "text = ?a @ strip text @ ?b" by (simp add: strip_def)
  moreover have "list_all isspace ?a" "list_all isspace ?b"
    by (auto simp add: list_all_iff dest: set_takeWhileD)
  ultimately show ?thesis by blast
qed

lemma startswith_strip:
  assumes "startswith l ''```''"
  shows "startswith (strip l) ''```''"
proof -
  from assms obtain r where l: "l = ''```'' @ r"
    by (metis append_take_drop_id startswith_def)
  have ls: "lstrip l = l" by (simp add: l lstrip_def)
  have "rstrip l = ''```'' @ rstrip r \<or> rstrip l = ''```''"
    by (cases "list_all isspace r")
      (auto simp add: l rstrip_def list_all_iff dropWhile_append)
  then show ?thesis
    by (auto simp add: strip_def ls startswith_def)
qed

text \<open>Trimming a trimmed text changes nothing.\<close>

lemma strip_idem: "strip (strip x) = strip x"
proof -
  obtain a b where a: "list_all isspace a" and b: "list_all isspace b"
    and x: "x = a @ strip x @ b"
    using strip_decompose by blast
  from strip_ws_append [OF a b, of "strip x"]
  have "strip (a @ strip x @ b) = strip (strip x)" .
  then have "strip x = strip (strip x)" by (simp only: x [symmetric])
  then show ?thesis by simp
qed

text \<open>
  Claim C7, as stated, fails: the sanitizer begins with \<^verbatim>\<open>response.strip()\<close>. The text
  of two spaces, \<^verbatim>\<open>dir\<close> and a line feed has no line that starts with the fence
  marker, and the sanitizer returns \<^verbatim>\<open>dir\<close>, not the text.
\<close>

theorem clean_strips_unfenced_text:
  "\<not> list_ex (\<lambda>l. startswith l ''```'') (split_nl ''  dir\<newline>'')
   \<and> clean_gemini_response ''  dir\<newline>'' = ''dir''
   \<and> clean_gemini_response ''  dir\<newline>'' \<noteq> ''  dir\<newline>''"
  by (simp add: clean_gemini_response_def strip_def lstrip_def rstrip_def startswith_def
      isspace_def)

text \<open>The fence tests read the trimmed text: a closing fence that is indented in the
  raw text is dropped as well, although its line does not start with the marker.\<close>

lemma clean_drops_indented_fence:
  "\<not> list_ex (\<lambda>l. startswith l ''```'') (split_nl ''dir\<newline>  ```'')
   \<and> clean_gemini_response ''dir\<newline>  ```'' = ''dir''"
  by (simp add: clean_gemini_response_def strip_def lstrip_def rstrip_def startswith_def
      isspace_def)

text \<open>
  Claim C7, amended. For every raw text in which no line, once trimmed, starts with the
  fence marker, the sanitizer returns the text with its leading and trailing whitespace
  stripped and nothing else changed; so it returns the text unchanged exactly when the
  text has no leading or trailing whitespace.
\<close>

theorem clean_without_fences:
  assumes "\<not> list_ex fence_line (split_nl text)"
  shows "clean_gemini_response text = strip text
       \<and> (clean_gemini_response text = text) = (strip text = text)"
proof -
  obtain a b where ws: "list_all isspace a" "list_all isspace b"
    and dec: "text = a @ strip text @ b"
    using strip_decompose by blast
  let ?T = "split_nl (strip text)"
  have keep: "\<not> startswith (hd ?T) ''```'' \<and> strip (last ?T) \<noteq> ''```''" if len: "2 \<le> length ?T"
  proof -
    obtain x xs where T: "?T = x # xs"
      by (cases ?T) simp_all
    with len have xs: "xs \<noteq> []" by auto
    let ?TB = "split_nl (strip text @ b)"
    have tb: "?TB = x # butlast xs @ [last ?T @ hd (split_nl b)] @ tl (split_nl b)"
      using split_nl_append [of "strip text" b] T xs by simp
    have "split_nl text = butlast (split_nl a) @ [last (split_nl a) @ hd ?TB] @ tl ?TB"
      using split_nl_append [of a "strip text @ b"] dec by simp
    then have lines: "split_nl text =
        butlast (split_nl a) @ [last (split_nl a) @ hd ?T]
          @ butlast xs @ [last ?T @ hd (split_nl b)] @ tl (split_nl b)"
      by (simp add: tb T)
    have first: "last (split_nl a) @ hd ?T \<in> set (split_nl text)"
      by (subst lines) simp
    have lastl: "last ?T @ hd (split_nl b) \<in> set (split_nl text)"
      by (subst lines) simp
    have wa: "list_all isspace (last (split_nl a))"
      using set_split_nl [of "last (split_nl a)" a] ws(1)
      by (auto simp add: list_all_iff)
    have wb: "list_all isspace (hd (split_nl b))"
      using set_split_nl [of "hd (split_nl b)" b] ws(2)
      by (auto simp add: list_all_iff)
    have s1: "strip (last (split_nl a) @ hd ?T) = strip (hd ?T)"
      using strip_ws_append [OF wa, of "[]" "hd ?T"] by simp
    have s2: "strip (last ?T @ hd (split_nl b)) = strip (last ?T)"
      using strip_ws_append [of "[]" "hd (split_nl b)" "last ?T"] wb by simp
    from assms first have "\<not> fence_line (last (split_nl a) @ hd ?T)"
      by (auto simp add: list_ex_iff)
    then have n1: "\<not> startswith (hd ?T) ''```''"
      using startswith_strip [of "hd ?T"] by (auto simp add: fence_line_def s1)
    from assms lastl have "\<not> fence_line (last ?T @ hd (split_nl b))"
      by (auto simp add: list_ex_iff)
    then have n2: "strip (last ?T) \<noteq> ''```''"
      by (auto simp add: fence_line_def s2 startswith_def)
    from n1 n2 show ?thesis by simp
  qed
  have "clean_gemini_response text = join ''\<newline>'' ?T"
    using keep by (auto simp add: clean_gemini_response_def Let_def)
  then have "clean_gemini_response text = strip text"
    by (simp add: join_split_nl)
  then show ?thesis by simp
qed

theorem clean_without_fences_witness:
  "clean_gemini_response ''  mkdir demo\<newline>cd demo \<newline>\<newline>'' = ''mkdir demo\<newline>cd demo''"
proof -
  have "\<not> list_ex fence_line (split_nl ''  mkdir demo\<newline>cd demo \<newline>\<newline>'')"
    by (simp add: fence_line_def strip_def lstrip_def rstrip_def startswith_def isspace_def)
  from clean_without_fences [OF this] show ?thesis
    by (simp add: strip_def lstrip_def rstrip_def isspace_def)
qed

subsection \<open>Properties of the model client\<close>

lemma str_nat_digits:
  "str_nat 1 = ''1''" "str_nat 2 = ''2''" "str_nat 3 = ''3''"
  "str_nat (Suc 0) = ''1''" "str_nat (Suc (Suc 0)) = ''2''" "str_nat (Suc (Suc (Suc 0))) = ''3''"
  by (simp_all add: str_nat.simps numeral_2_eq_2 [symmetric] numeral_3_eq_3 [symmetric])

text \<open>One failed attempt of the CLI loop that is not the last: the call, the notice,
  the sleep, and the loop goes on with the next index.\<close>

lemma get_gemini_loop_retry:
  assumes "attempt_result (att retry) = Inl e" and "retry < max_retries - 1"
  shows "get_gemini_loop att prompt retry s =
         get_gemini_loop att prompt (Suc retry)
           (emit (Sleep retry_delay)
             (emit (Print (''[yellow]Connection error, retrying in '' @ str_nat retry_delay
                @ '' seconds... (Attempt '' @ str_nat (Suc retry) @ ''/''
                @ str_nat max_retries @ '')[/yellow]'')) (emit (ModelCall prompt) s)))"
proof -
  from assms(2) have "retry < max_retries" by simp
  with assms show ?thesis
    by (subst get_gemini_loop.simps) (simp add: cli_attempt_def)
qed

text \<open>The last attempt of the CLI loop fails: the exception leaves the function.\<close>

lemma get_gemini_loop_give_up:
  assumes "attempt_result (att retry) = Inl e" and "Suc retry = max_retries"
  shows "get_gemini_loop att prompt retry s =
         (Inl (Exception (''Failed to get response after '' @ str_nat max_retries
            @ '' attempts: '' @ str_exn e)), emit (ModelCall prompt) s)"
proof -
  from assms(2) have "retry < max_retries" "\<not> retry < max_retries - 1" by simp_all
  with assms(1) show ?thesis
    by (subst get_gemini_loop.simps) (simp add: cli_attempt_def)
qed

lemma worker_loop_retry:
  assumes "cs retries = Raises m" and "Suc retries < max_retries"
  shows "worker_loop cs prompt retries le (sigs, s) =
         worker_loop cs prompt (Suc retries) (Some m)
           (sigs, emit (Sleep retry_delay) (emit (ModelCall prompt) s))"
proof -
  from assms(2) have "retries < max_retries" by simp
  with assms show ?thesis
    by (subst worker_loop.simps) simp
qed

text \<open>The last attempt of the worker fails: one \<open>error\<close> signal, and the loop
  condition, tested once more, ends the method.\<close>

lemma worker_loop_give_up:
  assumes "cs retries = Raises m" and "Suc retries = max_retries"
  shows "worker_loop cs prompt retries le (sigs, s) =
         (sigs @ [Failed (''Connection error after '' @ str_nat (Suc retries) @ '' attempts: '' @ m)],
          emit (ModelCall prompt) s)"
proof -
  from assms(2) have r: "retries < max_retries" "\<not> Suc retries < max_retries" by simp_all
  have stop: "worker_loop cs prompt (Suc retries) le' acc = acc" for le' acc
  proof (cases acc)
    case (Pair sigs' s')
    from r(2) show ?thesis
      unfolding Pair by (subst worker_loop.simps) simp
  qed
  from assms r show ?thesis
    by (subst worker_loop.simps) (simp add: stop)
qed

text \<open>A reply to the first attempt ends either client after that one call.\<close>

lemma get_gemini_response_first_reply:
  "att 0 = Done (Reply r) \<Longrightarrow>
   get_gemini_response att prompt s = (Inr (Some r), emit (ModelCall prompt) s)"
  by (simp add: get_gemini_response_def get_gemini_loop.simps [of att prompt 0]
      cli_attempt_def max_retries_def)

lemma worker_run_first_reply:
  "cs 0 = Reply r \<Longrightarrow> worker_run cs prompt s = ([Finished r], emit (ModelCall prompt) s)"
  by (simp add: worker_run_def worker_loop.simps [of cs prompt 0] max_retries_def)

text \<open>
  Claim C9. When the first attempt succeeds, \<^verbatim>\<open>get_gemini_response\<close> returns the
  model's text as it is and the worker emits \<open>finished\<close> with that text; the only
  call made is the one model call: no retry, no notice, no sleep.
\<close>

theorem first_attempt_success:
  assumes "att 0 = Done (Reply text)" and "cs 0 = Reply text"
  shows "get_gemini_response att prompt s = (Inr (Some text), emit (ModelCall prompt) s)
       \<and> worker_run cs prompt s = ([Finished text], emit (ModelCall prompt) s)"
  using assms
  by (simp add: get_gemini_response_def worker_run_def get_gemini_loop.simps [of att prompt 0]
      worker_loop.simps [of cs prompt 0] cli_attempt_def max_retries_def)

theorem first_attempt_success_witness:
  "get_gemini_response (\<lambda>i. Done (Reply ''mkdir demo'')) (cli_prompt ''create a folder called demo'') initial
     = (Inr (Some ''mkdir demo''), emit (ModelCall (cli_prompt ''create a folder called demo'')) initial)
   \<and> worker_run (\<lambda>i. Reply ''mkdir demo'') (gui_prompt ''create a folder called demo'') initial
     = ([Finished ''mkdir demo''], emit (ModelCall (gui_prompt ''create a folder called demo'')) initial)"
proof -
  have cli: "(\<lambda>i::nat. Done (Reply ''mkdir demo'')) 0 = Done (Reply ''mkdir demo'')"
    and gui: "(\<lambda>i::nat. Reply ''mkdir demo'') 0 = Reply ''mkdir demo''"
    by simp_all
  from first_attempt_success [OF cli gui, of "cli_prompt ''create a folder called demo''" initial]
    first_attempt_success [OF cli gui, of "gui_prompt ''create a folder called demo''" initial]
  show ?thesis by blast
qed

text \<open>
  Claim C2. When the three attempts fail, \<^verbatim>\<open>get_gemini_response\<close> makes exactly three
  model calls (a notice and a sleep of two seconds after the first and the second) and
  then raises one exception, whose message names the three attempts and carries the
  text of the last exception; \<^verbatim>\<open>GeminiWorker.run\<close> makes exactly three model calls (a
  sleep after the first and the second) and then emits one \<open>error\<close> signal, whose
  message names the three attempts and the text of the last exception. Nothing follows.
\<close>

theorem retries_exhausted:
  assumes "attempt_result (att 0) = Inl e0"
    and "attempt_result (att 1) = Inl e1"
    and "attempt_result (att 2) = Inl e2"
    and "cs 0 = Raises m0" and "cs 1 = Raises m1" and "cs 2 = Raises m2"
  shows "get_gemini_response att prompt s =
           (Inl (Exception (''Failed to get response after 3 attempts: '' @ str_exn e2)),
            s\<lparr>trace := trace s @
              [ModelCall prompt,
               Print ''[yellow]Connection error, retrying in 2 seconds... (Attempt 1/3)[/yellow]'',
               Sleep 2,
               ModelCall prompt,
               Print ''[yellow]Connection error, retrying in 2 seconds... (Attempt 2/3)[/yellow]'',
               Sleep 2,
               ModelCall prompt]\<rparr>)
       \<and> worker_run cs prompt s =
           ([Failed (''Connection error after 3 attempts: '' @ m2)],
            s\<lparr>trace := trace s @
              [ModelCall prompt, Sleep 2, ModelCall prompt, Sleep 2, ModelCall prompt]\<rparr>)"
proof -
  have a1: "attempt_result (att (Suc 0)) = Inl e1"
    using assms(2) by simp
  have a2: "attempt_result (att (Suc (Suc 0))) = Inl e2"
    using assms(3) by (simp add: numeral_2_eq_2)
  have c1: "cs (Suc 0) = Raises m1"
    using assms(5) by simp
  have c2: "cs (Suc (Suc 0)) = Raises m2"
    using assms(6) by (simp add: numeral_2_eq_2)
  have cli: "get_gemini_loop att prompt 0 s =
           (Inl (Exception (''Failed to get response after 3 attempts: '' @ str_exn e2)),
            s\<lparr>trace := trace s @
              [ModelCall prompt,
               Print ''[yellow]Connection error, retrying in 2 seconds... (Attempt 1/3)[/yellow]'',
               Sleep 2,
               ModelCall prompt,
               Print ''[yellow]Connection error, retrying in 2 seconds... (Attempt 2/3)[/yellow]'',
               Sleep 2,
               ModelCall prompt]\<rparr>)"
    by (simp add: get_gemini_loop_retry [of att 0, OF assms(1)]
        get_gemini_loop_retry [of att "Suc 0", OF a1]
        get_gemini_loop_give_up [of att "Suc (Suc 0)", OF a2]
        max_retries_def retry_delay_def str_nat_digits emit_def)
  have gui: "worker_loop cs prompt 0 None ([], s) =
           ([Failed (''Connection error after 3 attempts: '' @ m2)],
            s\<lparr>trace := trace s @
              [ModelCall prompt, Sleep 2, ModelCall prompt, Sleep 2, ModelCall prompt]\<rparr>)"
    by (simp add: worker_loop_retry [of cs 0, OF assms(4)]
        worker_loop_retry [of cs "Suc 0", OF c1]
        worker_loop_give_up [of cs "Suc (Suc 0)", OF c2]
        max_retries_def retry_delay_def str_nat_digits emit_def)
  from cli gui show ?thesis
    by (simp add: get_gemini_response_def worker_run_def)
qed

theorem retries_exhausted_witness:
  "get_gemini_response (\<lambda>i. if i = 2 then TimedOut else Done (Raises ''503'')) ''p'' initial =
     (Inl (Exception (''Failed to get response after 3 attempts: ''
        @ ''The request took too long to complete. Please try again.'')),
      initial\<lparr>trace := trace initial @
        [ModelCall ''p'',
         Print ''[yellow]Connection error, retrying in 2 seconds... (Attempt 1/3)[/yellow]'',
         Sleep 2,
         ModelCall ''p'',
         Print ''[yellow]Connection error, retrying in 2 seconds... (Attempt 2/3)[/yellow]'',
         Sleep 2,
         ModelCall ''p'']\<rparr>)
   \<and> worker_run (\<lambda>i. Raises (''offline '' @ str_nat i)) ''p'' initial =
     ([Failed ''Connection error after 3 attempts: offline 2''],
      initial\<lparr>trace := trace initial @
        [ModelCall ''p'', Sleep 2, ModelCall ''p'', Sleep 2, ModelCall ''p'']\<rparr>)"
  using retries_exhausted
    [of "\<lambda>i. if i = 2 then TimedOut else Done (Raises ''503'')"
        "Exception ''Error getting response from Gemini: 503''"
        "Exception ''Error getting response from Gemini: 503''"
        "TimeoutError ''The request took too long to complete. Please try again.''"
        "\<lambda>i. Raises (''offline '' @ str_nat i)"
        "''offline '' @ str_nat 0" "''offline '' @ str_nat 1" "''offline '' @ str_nat 2"
        "''p''" initial]
  by (simp add: str_nat_digits)

subsection \<open>Properties of the script runner\<close>

lemmas io_defs = io_return_def io_raise_def io_do_def io_bind_def io_try_def

lemma cleanup_tempfile: "tempfile (cleanup s) = None"
  by (simp add: cleanup_def emit_def split: option.splits)

text \<open>\<^verbatim>\<open>execute_batch_file\<close> and \<^verbatim>\<open>execute_commands\<close> leave no temporary file behind,
  whatever the file system and the interpreter answer.\<close>

lemma execute_batch_file_removes: "tempfile (snd (execute_batch_file pr s)) = None"
  by (cases pr)
    (simp_all add: execute_batch_file_def io_defs popen_communicate_def cleanup_tempfile)

lemma execute_commands_removes: "tempfile (snd (execute_commands env commands s)) = None"
  by (cases "file_write env"; cases "interpreter env")
    (simp_all add: execute_commands_def io_defs write_temp_def popen_communicate_def
      cleanup_tempfile)

text \<open>A write that fails after \<^verbatim>\<open>open\<close> leaves the empty file behind in
  \<^verbatim>\<open>create_batch_file\<close>, whose handler only re-raises.\<close>

lemma create_batch_file_failed_write:
  "create_batch_file (WriteFails m) commands s =
     (Inl (Exception (''Error creating batch file: '' @ m)),
      s\<lparr>tempfile := Some [], trace := trace s @ [OpenWrite (batch_content commands)]\<rparr>)"
  by (simp add: create_batch_file_def io_defs write_temp_def emit_def)

text \<open>
  \<^verbatim>\<open>execute_local_command\<close> always ends in the \<^verbatim>\<open>AttributeError\<close> of
  \<^verbatim>\<open>self.output_area\<close>, raised a second time inside its own handler; the only call it
  makes is the write of the batch file, and a file that was written stays.
\<close>

lemma execute_local_command_raises:
  "fst (execute_local_command env command s) =
     Inl (AttributeError (no_attribute ''GemilotCLI'' ''output_area''))"
  by (cases "file_write env")
    (simp_all add: execute_local_command_def io_defs write_temp_def cli_output_area_append_def)

lemma execute_local_command_trace:
  "trace (snd (execute_local_command env command s)) =
     trace s @ [OpenWrite (''@echo off'' @ crlf @ strip command)]"
  by (cases "file_write env")
    (simp_all add: execute_local_command_def io_defs write_temp_def cli_output_area_append_def
      emit_def)

lemma execute_local_command_keeps_file:
  assumes "file_write env = Written"
  shows "tempfile (snd (execute_local_command env command s)) =
           Some (translate_newlines (''@echo off'' @ crlf @ strip command))"
  using assms
  by (simp add: execute_local_command_def io_defs write_temp_def cli_output_area_append_def
      emit_def)

text \<open>
  Claim C1 (the code departs from it). After \<^verbatim>\<open>execute_local_command\<close> the temporary
  file should be gone. On the command \<^verbatim>\<open>mkdir test_folder\<close>, with a write that succeeds,
  the method raises \<^verbatim>\<open>AttributeError\<close> and \<^verbatim>\<open>temp_commands.bat\<close> is still on disk with
  the script in it; the interpreter was never started and the file never removed.
\<close>

theorem local_command_leaves_tempfile:
  "execute_local_command \<lparr>file_write = Written, interpreter = Ran [] [] 0\<rparr>
       ''mkdir test_folder'' initial =
     (Inl (AttributeError (no_attribute ''GemilotCLI'' ''output_area'')),
      \<lparr>tempfile = Some (''@echo off'' @ [CHR 0x0D, CHR 0x0D, CHR 0x0A] @ ''mkdir test_folder''),
       trace = [OpenWrite (''@echo off'' @ [CHR 0x0D, CHR 0x0A] @ ''mkdir test_folder'')],
       command_history = []\<rparr>)"
  by (simp add: execute_local_command_def io_defs write_temp_def cli_output_area_append_def
      emit_def initial_def crlf_def translate_newlines_def strip_def lstrip_def rstrip_def
      isspace_def)

text \<open>
  Claim C3, as stated, fails for \<^verbatim>\<open>execute_commands\<close>: with empty standard error it
  succeeds, but its value is \<^verbatim>\<open>None\<close>, not the captured standard output.
\<close>

theorem execute_commands_returns_none:
  "fst (execute_commands \<lparr>file_write = Written, interpreter = Ran ''hi'' [] 0\<rparr>
          [''echo hi''] initial) = Inr None
   \<and> fst (execute_commands \<lparr>file_write = Written, interpreter = Ran ''hi'' [] 0\<rparr>
          [''echo hi''] initial) \<noteq> Inr (Some ''hi'')"
  by (simp add: execute_commands_def io_defs write_temp_def popen_communicate_def)

text \<open>
  Claim C3, amended. When the batch file is written and the interpreter runs to its
  end, whatever its exit code: \<^verbatim>\<open>execute_batch_file\<close> raises an exception carrying the
  standard-error text exactly when that text is not empty, and returns the captured
  standard output otherwise; \<^verbatim>\<open>execute_commands\<close> raises an exception whose message is
  the standard-error text exactly when that text is not empty, and otherwise succeeds
  with no value (the captured standard output is dropped).
\<close>

theorem stderr_decides_failure:
  assumes "file_write env = Written" and "interpreter env = Ran out err rc"
  shows "fst (execute_batch_file (interpreter env) s) =
           (if err = [] then Inr (Some out)
            else Inl (Exception (''Error executing batch file: '' @ err)))
       \<and> fst (execute_commands env commands s) =
           (if err = [] then Inr None else Inl (Exception err))"
  using assms
  by (simp add: execute_batch_file_def execute_commands_def io_defs write_temp_def
      popen_communicate_def)

theorem stderr_decides_failure_witness:
  "fst (execute_batch_file (Ran ''done'' ''Access is denied.'' 0) initial) =
     Inl (Exception ''Error executing batch file: Access is denied.'')
   \<and> fst (execute_commands
          \<lparr>file_write = Written, interpreter = Ran ''done'' ''Access is denied.'' 0\<rparr>
          [''del x''] initial) = Inl (Exception ''Access is denied.'')"
  using stderr_decides_failure
    [of "\<lparr>file_write = Written, interpreter = Ran ''done'' ''Access is denied.'' 0\<rparr>"
        "''done''" "''Access is denied.''" 0 initial "[''del x'']"]
  by simp

subsection \<open>Properties of the session shell\<close>

text \<open>
  Claim C5 (the code departs from it). The input \<^verbatim>\<open>local: mkdir test_folder\<close> should
  reach the interpreter as the one command line of the batch script. In the turn the
  model is not called and the batch file is written with that one line, but the
  interpreter is never started: the trace has no \<open>Popen\<close>, the turn ends in the outer
  handler's message, and the file stays on disk. The message holds no square bracket,
  so it prints whatever Rich answers elsewhere.
\<close>

theorem local_bypass_never_runs:
  "cli_turn
       \<lparr>file_write = Written, interpreter = Ran [] [] 0,
        attempts = (\<lambda>i. Done (Reply ''dir'')), rich = (\<lambda>l. Some ''markup'')\<rparr>
       ''local: mkdir test_folder'' initial =
     (Inr True,
      \<lparr>tempfile = Some (''@echo off'' @ [CHR 0x0D, CHR 0x0D, CHR 0x0A] @ ''mkdir test_folder''),
       trace =
         [Ask,
          OpenWrite (''@echo off'' @ [CHR 0x0D, CHR 0x0A] @ ''mkdir test_folder''),
          Print (''[bold red]An error occurred:[/bold red] ''
                 @ no_attribute ''GemilotCLI'' ''output_area'')],
       command_history = []\<rparr>)"
  by (simp add: cli_turn_def execute_local_command_def io_defs write_temp_def
      cli_output_area_append_def emit_def initial_def crlf_def translate_newlines_def
      strip_def lstrip_def rstrip_def isspace_def lower_def lower_char_def startswith_def
      console_print_def rich_raises_def no_attribute_def)

text \<open>Frame facts: what the operations of a turn leave alone.\<close>

lemma emit_frame [simp]:
  "tempfile (emit e s) = tempfile s" "command_history (emit e s) = command_history s"
  "trace (emit e s) = trace s @ [e]"
  by (simp_all add: emit_def)

lemma offer_fallback_frame:
  "tempfile (offer_fallback s) = tempfile s" "command_history (offer_fallback s) = command_history s"
  "filter runner_event (trace (offer_fallback s)) = filter runner_event (trace s)"
  "set (trace s) \<subseteq> set (trace (offer_fallback s))"
  by (auto simp add: offer_fallback_def)

lemma offer_fallback_mem:
  "x \<in> set (trace s) \<Longrightarrow> x \<in> set (trace (offer_fallback s))"
  by (simp add: offer_fallback_def)

text \<open>
  The CLI retry loop touches neither the temporary file nor the history, makes no call
  of the script runner, and only adds to the trace.
\<close>

lemma get_gemini_loop_frame:
  "tempfile (snd (get_gemini_loop att prompt retry s)) = tempfile s
   \<and> command_history (snd (get_gemini_loop att prompt retry s)) = command_history s
   \<and> filter runner_event (trace (snd (get_gemini_loop att prompt retry s)))
       = filter runner_event (trace s)
   \<and> set (trace s) \<subseteq> set (trace (snd (get_gemini_loop att prompt retry s)))"
proof (induction att prompt retry s rule: get_gemini_loop.induct)
  case (1 att prompt retry s)
  show ?case
  proof (cases "retry < max_retries")
    case False
    then show ?thesis by (simp add: get_gemini_loop.simps [of att prompt retry s])
  next
    case True
    show ?thesis
    proof (cases "attempt_result (att retry)")
      case (Inr reply)
      with True show ?thesis
        by (auto simp add: get_gemini_loop.simps [of att prompt retry s] cli_attempt_def)
    next
      case (Inl e)
      show ?thesis
      proof (cases "retry < max_retries - 1")
        case False
        with True Inl show ?thesis
          by (auto simp add: get_gemini_loop.simps [of att prompt retry s] cli_attempt_def)
      next
        case less: True
        have step: "cli_attempt (att retry) prompt s = (Inl e, emit (ModelCall prompt) s)"
          using Inl by (simp add: cli_attempt_def)
        note ih = "1.IH" [OF True step [symmetric] refl less]
        from True Inl less ih show ?thesis
          by (auto simp add: get_gemini_loop.simps [of att prompt retry s] cli_attempt_def)
      qed
    qed
  qed
qed

text \<open>Started at index 0, the loop calls the model at least once.\<close>

lemma get_gemini_loop_calls:
  "ModelCall prompt \<in> set (trace (snd (get_gemini_loop att prompt 0 s)))"
proof (cases "attempt_result (att 0)")
  case (Inr reply)
  then show ?thesis
    by (simp add: get_gemini_loop.simps [of att prompt 0 s] cli_attempt_def max_retries_def)
next
  case (Inl e)
  have "ModelCall prompt \<in> set (trace (snd (get_gemini_loop att prompt (Suc 0) s')))"
    if "ModelCall prompt \<in> set (trace s')" for s'
    using that get_gemini_loop_frame [of att prompt "Suc 0" s'] by blast
  with Inl show ?thesis
    by (simp add: get_gemini_loop.simps [of att prompt 0 s] cli_attempt_def max_retries_def)
qed

lemma write_temp_history:
  "command_history (snd (write_temp outcome content s)) = command_history s"
  by (cases outcome) (simp_all add: write_temp_def)

lemma execute_local_command_history:
  "command_history (snd (execute_local_command env command s)) = command_history s"
  by (cases "file_write env")
    (simp_all add: execute_local_command_def io_defs write_temp_def cli_output_area_append_def)

text \<open>Sequencing and handlers pass the history and the trace along.\<close>

lemma io_bind_do: "io_bind (io_do g) f s = f () (g s)"
  by (simp add: io_defs)

lemma io_bind_history:
  assumes "\<And>x t. command_history (snd (f x t)) = command_history t"
  shows "command_history (snd (io_bind m f s)) = command_history (snd (m s))"
proof (cases "m s")
  case (Pair r t)
  with assms show ?thesis by (cases r) (simp_all add: io_bind_def)
qed

lemma io_try_history:
  assumes "\<And>e t. command_history (snd (h e t)) = command_history t"
  shows "command_history (snd (io_try m h s)) = command_history (snd (m s))"
proof (cases "m s")
  case (Pair r t)
  with assms show ?thesis by (cases r) (simp_all add: io_try_def)
qed

lemma io_bind_mem:
  assumes "x \<in> set (trace (snd (m s)))"
    and "\<And>y t. x \<in> set (trace t) \<Longrightarrow> x \<in> set (trace (snd (f y t)))"
  shows "x \<in> set (trace (snd (io_bind m f s)))"
proof (cases "m s")
  case (Pair r t)
  with assms show ?thesis by (cases r) (simp_all add: io_bind_def)
qed

lemma io_try_mem:
  assumes "x \<in> set (trace (snd (m s)))"
    and "\<And>e t. x \<in> set (trace t) \<Longrightarrow> x \<in> set (trace (snd (h e t)))"
  shows "x \<in> set (trace (snd (io_try m h s)))"
proof (cases "m s")
  case (Pair r t)
  with assms show ?thesis by (cases r) (simp_all add: io_try_def)
qed

text \<open>A print, raising or not, changes neither history nor file; a line without a
  square bracket always prints.\<close>

lemma console_print_frame:
  "command_history (snd (console_print answer label txt s)) = command_history s"
  "tempfile (snd (console_print answer label txt s)) = tempfile s"
  "filter runner_event (trace (snd (console_print answer label txt s)))
     = filter runner_event (trace s)"
  by (simp_all add: console_print_def io_defs split: option.splits)

lemma console_print_mem:
  "x \<in> set (trace s) \<Longrightarrow> x \<in> set (trace (snd (console_print answer label txt s)))"
  by (simp add: console_print_def io_defs split: option.splits)

lemma console_print_plain:
  "CHR ''['' \<notin> set txt \<Longrightarrow>
   console_print answer label txt s = (Inr (), emit (Print (label @ txt)) s)"
  by (simp add: console_print_def rich_raises_def io_defs)

lemma show_history_frame:
  "command_history (snd (show_history answer s)) = command_history s"
  by (simp add: show_history_def io_defs split: option.splits)

lemma cli_inner_handler_frame:
  "command_history (snd (cli_inner_handler env e s)) = command_history s"
  by (cases e)
    (simp_all add: io_bind_history io_do_def offer_fallback_frame console_print_frame)

lemma cli_inner_handler_mem:
  assumes "x \<in> set (trace s)"
  shows "x \<in> set (trace (snd (cli_inner_handler env e s)))"
  by (cases e)
    (auto intro!: io_bind_mem console_print_mem offer_fallback_mem assms simp add: io_do_def)

lemma cli_handle_response_frame:
  "command_history (snd (cli_handle_response env response s)) = command_history s
   \<and> tempfile (snd (cli_handle_response env response s)) = tempfile s
   \<and> filter runner_event (trace (snd (cli_handle_response env response s)))
       = filter runner_event (trace s)
   \<and> set (trace s) \<subseteq> set (trace (snd (cli_handle_response env response s)))"
  by (cases response)
    (auto simp add: cli_handle_response_def io_defs cli_clean_gemini_response_def
      console_print_def offer_fallback_frame intro: offer_fallback_mem split: option.splits)

lemma cli_request_frame:
  "command_history (snd (cli_request env user_input s)) = command_history s
   \<and> ModelCall (cli_prompt user_input) \<in> set (trace (snd (cli_request env user_input s)))"
proof -
  obtain r s1 where g: "get_gemini_response (attempts env) (cli_prompt user_input) s = (r, s1)"
    by (cases "get_gemini_response (attempts env) (cli_prompt user_input) s")
  have h: "command_history s1 = command_history s"
    and c: "ModelCall (cli_prompt user_input) \<in> set (trace s1)"
    using g get_gemini_loop_frame [of "attempts env" "cli_prompt user_input" 0 s]
      get_gemini_loop_calls [of "cli_prompt user_input" "attempts env" s]
    by (simp_all add: get_gemini_response_def)
  show ?thesis
  proof (cases r)
    case (Inl e)
    with g h c show ?thesis by (simp add: cli_request_def io_defs)
  next
    case (Inr response)
    with g h c cli_handle_response_frame [of env response s1] show ?thesis
      by (auto simp add: cli_request_def io_defs)
  qed
qed

lemma cli_outer_handler_history:
  "command_history (snd (io_bind (console_print answer label txt) (\<lambda>_. io_return True) s))
     = command_history s"
  by (simp add: io_bind_history io_return_def console_print_frame)

text \<open>The history after one turn, whatever the model, the file system, the
  interpreter and Rich answer during it, and whether or not the turn ends in an
  exception.\<close>

lemma cli_turn_history:
  "command_history (snd (cli_turn env line s)) =
     (if is_request (strip line) then command_history s @ [strip line] else command_history s)"
proof -
  have outer: "command_history (snd (cli_turn env line s)) =
      command_history (snd (
        (let user_input = strip line
         in if lower user_input = ''exit'' then
              io_bind (io_do (emit Farewell)) (\<lambda>_. io_return False)
            else if lower user_input = ''help'' then
              io_bind (io_do show_help) (\<lambda>_. io_return True)
            else if lower user_input = ''history'' then
              io_bind (show_history (rich env)) (\<lambda>_. io_return True)
            else if startswith (lower user_input) ''local:'' then
              io_bind (execute_local_command env (strip (drop 6 user_input))) (\<lambda>_.
              io_return True)
            else
              io_bind (io_do (\<lambda>s. s\<lparr>command_history := command_history s @ [user_input]\<rparr>)) (\<lambda>_.
              io_bind (io_try (cli_request env user_input) (cli_inner_handler env)) (\<lambda>_.
              io_return True))) (emit Ask s)))"
    unfolding cli_turn_def
    by (subst io_try_history) (simp_all add: cli_outer_handler_history io_bind_do)
  have ret: "command_history (snd (io_bind m (\<lambda>_. io_return b) t)) = command_history (snd (m t))"
    for m :: "unit io" and b :: bool and t
    by (simp add: io_bind_history io_return_def)
  have req: "command_history (snd (io_try (cli_request env u) (cli_inner_handler env) t))
      = command_history t" for u t
    by (simp add: io_try_history cli_inner_handler_frame cli_request_frame)
  show ?thesis
    unfolding outer
    by (simp add: Let_def is_request_def ret io_do_def show_help_def show_history_frame
        execute_local_command_history io_bind_do req io_return_def)
qed

text \<open>A turn that ends without an exception goes on after every input but \<^verbatim>\<open>exit\<close>.\<close>

lemma cli_turn_result:
  "fst (cli_turn env line s) = Inr b \<Longrightarrow> b = (lower (strip line) \<noteq> ''exit'')"
  by (auto simp add: cli_turn_def Let_def io_defs split: prod.splits sum.splits if_splits)

lemma cli_loop_history:
  "command_history (snd (cli_loop inputs s)) =
     command_history s @ filter is_request
       (map (\<lambda>(l, e). strip l) (take (turns_run inputs s) inputs))"
proof (induction inputs arbitrary: s)
  case Nil
  show ?case by simp
next
  case (Cons a inputs)
  obtain line env where a: "a = (line, env)" by (cases a)
  obtain r s1 where t: "cli_turn env line s = (r, s1)" by (cases "cli_turn env line s")
  have h: "command_history s1 =
     (if is_request (strip line) then command_history s @ [strip line] else command_history s)"
    using cli_turn_history [of env line s] t by simp
  show ?case
  proof (cases r)
    case (Inl e)
    with a t h show ?thesis by simp
  next
    case (Inr b)
    with a t h Cons.IH [of s1] show ?thesis by (cases b) simp_all
  qed
qed

lemma cli_loop_history_no_crash:
  assumes "\<not> crashed (fst (cli_loop inputs s))"
  shows "command_history (snd (cli_loop inputs s)) =
     command_history s @ filter is_request
       (map (\<lambda>(l, e). strip l) (takeWhile (\<lambda>(l, e). lower (strip l) \<noteq> ''exit'') inputs))"
  using assms
proof (induction inputs arbitrary: s)
  case Nil
  show ?case by simp
next
  case (Cons a inputs)
  obtain line env where a: "a = (line, env)" by (cases a)
  obtain r s1 where t: "cli_turn env line s = (r, s1)" by (cases "cli_turn env line s")
  have h: "command_history s1 =
     (if is_request (strip line) then command_history s @ [strip line] else command_history s)"
    using cli_turn_history [of env line s] t by simp
  show ?case
  proof (cases r)
    case (Inl e)
    with a t Cons.prems show ?thesis by simp
  next
    case (Inr b)
    then have b: "b = (lower (strip line) \<noteq> ''exit'')"
      using cli_turn_result [of env line s b] t by simp
    show ?thesis
    proof (cases b)
      case True
      with a t b h Inr Cons.IH [of s1] Cons.prems show ?thesis by simp
    next
      case False
      with b have "\<not> is_request (strip line)" by (simp add: is_request_def)
      with False a t b h Inr show ?thesis by simp
    qed
  qed
qed

text \<open>
  Claim C10. In the loop of \<^verbatim>\<open>run\<close> the trimmed input is appended to
  \<^verbatim>\<open>command_history\<close> exactly when it is a request: in lower case it is none of
  \<^verbatim>\<open>exit\<close>, \<^verbatim>\<open>help\<close>, \<^verbatim>\<open>history\<close> and does not start with \<^verbatim>\<open>local:\<close>. The entry is
  added to the state before the model client runs, and nothing after it changes the
  history: the equation holds for every answer of the model, the file system, the
  interpreter and Rich, so a request whose model call or execution fails, or whose turn
  ends in an exception, is recorded once all the same. Over a whole session the history
  is the old history followed by the requests among the lines of the turns taken, in the
  order typed: nothing is removed or reordered. When no exception leaves \<^verbatim>\<open>run\<close>, the
  turns taken are those of the lines typed before \<^verbatim>\<open>exit\<close>.
\<close>

theorem history_records_requests:
  "command_history (snd (cli_turn env line s)) =
     (if is_request (strip line) then command_history s @ [strip line] else command_history s)
   \<and> command_history (snd (cli_loop inputs s')) =
       command_history s' @ filter is_request
         (map (\<lambda>(l, e). strip l) (take (turns_run inputs s') inputs))
   \<and> (\<not> crashed (fst (cli_loop inputs s')) \<longrightarrow>
       command_history (snd (cli_loop inputs s')) =
       command_history s' @ filter is_request
         (map (\<lambda>(l, e). strip l)
            (takeWhile (\<lambda>(l, e). lower (strip l) \<noteq> ''exit'') inputs)))"
proof (intro conjI impI)
  show "command_history (snd (cli_turn env line s)) =
     (if is_request (strip line) then command_history s @ [strip line] else command_history s)"
    by (rule cli_turn_history)
next
  show "command_history (snd (cli_loop inputs s')) =
       command_history s' @ filter is_request
         (map (\<lambda>(l, e). strip l) (take (turns_run inputs s') inputs))"
    by (rule cli_loop_history)
next
  assume "\<not> crashed (fst (cli_loop inputs s'))"
  then show "command_history (snd (cli_loop inputs s')) =
       command_history s' @ filter is_request
         (map (\<lambda>(l, e). strip l)
            (takeWhile (\<lambda>(l, e). lower (strip l) \<noteq> ''exit'') inputs))"
    by (rule cli_loop_history_no_crash)
qed

theorem history_records_requests_witness:
  "command_history (snd (cli_turn
       \<lparr>file_write = WriteFails ''disk full'', interpreter = PopenFails ''no shell'',
        attempts = (\<lambda>i. TimedOut), rich = (\<lambda>l. Some ''markup'')\<rparr>
       ''  Open Notepad '' initial)) = [''Open Notepad'']
   \<and> command_history (snd (cli_loop
       [(''open chrome'', \<lparr>file_write = Written, interpreter = Ran [] [] 0,
                            attempts = (\<lambda>i. Done (Raises ''offline'')), rich = (\<lambda>l. None)\<rparr>),
        (''HELP'', \<lparr>file_write = Written, interpreter = Ran [] [] 0,
                     attempts = (\<lambda>i. TimedOut), rich = (\<lambda>l. None)\<rparr>),
        (''Local: dir'', \<lparr>file_write = Written, interpreter = Ran [] [] 0,
                           attempts = (\<lambda>i. TimedOut), rich = (\<lambda>l. None)\<rparr>),
        (''make a folder'', \<lparr>file_write = Written, interpreter = Ran [] [] 0,
                              attempts = (\<lambda>i. Done (Reply ''mkdir x'')), rich = (\<lambda>l. None)\<rparr>),
        ('' Exit'', \<lparr>file_write = Written, interpreter = Ran [] [] 0,
                      attempts = (\<lambda>i. TimedOut), rich = (\<lambda>l. None)\<rparr>),
        (''never read'', \<lparr>file_write = Written, interpreter = Ran [] [] 0,
                           attempts = (\<lambda>i. TimedOut), rich = (\<lambda>l. None)\<rparr>)]
       initial)) = [''open chrome'', ''make a folder'']"
proof -
  let ?inputs = "[(''open chrome'', \<lparr>file_write = Written, interpreter = Ran [] [] 0,
                            attempts = (\<lambda>i. Done (Raises ''offline'')), rich = (\<lambda>l. None)\<rparr>),
        (''HELP'', \<lparr>file_write = Written, interpreter = Ran [] [] 0,
                     attempts = (\<lambda>i. TimedOut), rich = (\<lambda>l. None)\<rparr>),
        (''Local: dir'', \<lparr>file_write = Written, interpreter = Ran [] [] 0,
                           attempts = (\<lambda>i. TimedOut), rich = (\<lambda>l. None)\<rparr>),
        (''make a folder'', \<lparr>file_write = Written, interpreter = Ran [] [] 0,
                              attempts = (\<lambda>i. Done (Reply ''mkdir x'')), rich = (\<lambda>l. None)\<rparr>),
        ('' Exit'', \<lparr>file_write = Written, interpreter = Ran [] [] 0,
                      attempts = (\<lambda>i. TimedOut), rich = (\<lambda>l. None)\<rparr>),
        (''never read'', \<lparr>file_write = Written, interpreter = Ran [] [] 0,
                           attempts = (\<lambda>i. TimedOut), rich = (\<lambda>l. None)\<rparr>)]"
  have nc: "\<not> crashed (fst (cli_loop ?inputs initial))"
  proof
    assume c: "crashed (fst (cli_loop ?inputs initial))"
    have ok: "fst (cli_turn env line s) \<noteq> Inl e" if "rich env = (\<lambda>l. None)" for env line s e
      using that
      by (auto simp add: cli_turn_def Let_def io_defs console_print_def rich_raises_def
          split: prod.splits sum.splits option.splits)
    have "\<not> crashed (fst (cli_loop inputs s))"
      if "\<forall>(l, e) \<in> set inputs. rich e = (\<lambda>l. None)" for inputs s
      using that
    proof (induction inputs arbitrary: s)
      case Nil
      show ?case by simp
    next
      case (Cons a inputs)
      obtain line env where a: "a = (line, env)" by (cases a)
      obtain r s1 where t: "cli_turn env line s = (r, s1)" by (cases "cli_turn env line s")
      from Cons.prems a have re: "rich env = (\<lambda>l. None)" by simp
      show ?case
      proof (cases r)
        case (Inl e)
        with ok [OF re, of line s e] t show ?thesis by simp
      next
        case (Inr b)
        with a t Cons.IH [of s1] Cons.prems show ?thesis by (cases b) simp_all
      qed
    qed
    from this [of ?inputs initial] c show False by simp
  qed
  note th = history_records_requests
    [of "\<lparr>file_write = WriteFails ''disk full'', interpreter = PopenFails ''no shell'',
          attempts = (\<lambda>i. TimedOut), rich = (\<lambda>l. Some ''markup'')\<rparr>"
        "''  Open Notepad ''" initial ?inputs initial]
  note turn = th [THEN conjunct1]
  note session = th [THEN conjunct2, THEN conjunct2, rule_format, OF nc]
  have "command_history (snd (cli_turn
       \<lparr>file_write = WriteFails ''disk full'', interpreter = PopenFails ''no shell'',
        attempts = (\<lambda>i. TimedOut), rich = (\<lambda>l. Some ''markup'')\<rparr>
       ''  Open Notepad '' initial)) = [''Open Notepad'']"
    unfolding turn
    by (simp add: is_request_def lower_def lower_char_def strip_def lstrip_def rstrip_def
        isspace_def startswith_def char_of_eq_iff initial_def)
  moreover have "command_history (snd (cli_loop ?inputs initial)) =
      [''open chrome'', ''make a folder'']"
    unfolding session
    by (simp add: is_request_def lower_def lower_char_def strip_def lstrip_def rstrip_def
        isspace_def startswith_def char_of_eq_iff initial_def)
  ultimately show ?thesis by blast
qed

text \<open>
  Claim C8 (the code departs from it in the CLI). A blank input should be a no-op.
  \<^verbatim>\<open>run\<close> has no test for an empty input: a line of three spaces is trimmed to the
  empty string, appended to the history, put into the prompt, and the model is called
  with that prompt, whatever the world answers.
\<close>

theorem blank_input_reaches_model:
  "command_history (snd (cli_turn env ''   '' s)) = command_history s @ [[]]
   \<and> ModelCall (cli_prompt []) \<in> set (trace (snd (cli_turn env ''   '' s)))"
proof -
  have u: "strip ''   '' = []"
    by (simp add: strip_def lstrip_def rstrip_def isspace_def)
  have r: "is_request []"
    by (simp add: is_request_def lower_def startswith_def)
  define s1 where "s1 = (emit Ask s)\<lparr>command_history := command_history (emit Ask s) @ [[]]\<rparr>"
  have inner: "ModelCall (cli_prompt []) \<in> set (trace (snd
      (io_bind (io_try (cli_request env []) (cli_inner_handler env)) (\<lambda>_. io_return True) s1)))"
    by (intro io_bind_mem io_try_mem cli_inner_handler_mem)
      (simp_all add: cli_request_frame io_return_def)
  have "ModelCall (cli_prompt []) \<in> set (trace (snd (cli_turn env ''   '' s)))"
    unfolding cli_turn_def u
  proof (rule io_try_mem)
    from r inner show "ModelCall (cli_prompt []) \<in> set (trace (snd
      (io_bind (io_do (emit Ask)) (\<lambda>_.
        (let user_input = []
         in if lower user_input = ''exit'' then
              io_bind (io_do (emit Farewell)) (\<lambda>_. io_return False)
            else if lower user_input = ''help'' then
              io_bind (io_do show_help) (\<lambda>_. io_return True)
            else if lower user_input = ''history'' then
              io_bind (show_history (rich env)) (\<lambda>_. io_return True)
            else if startswith (lower user_input) ''local:'' then
              io_bind (execute_local_command env (strip (drop 6 user_input))) (\<lambda>_.
              io_return True)
            else
              io_bind (io_do (\<lambda>s. s\<lparr>command_history := command_history s @ [user_input]\<rparr>)) (\<lambda>_.
              io_bind (io_try (cli_request env user_input) (cli_inner_handler env)) (\<lambda>_.
              io_return True)))) s)))"
      by (simp add: Let_def is_request_def io_bind_do s1_def)
  next
    fix e and t :: state
    assume "ModelCall (cli_prompt []) \<in> set (trace t)"
    then show "ModelCall (cli_prompt []) \<in> set (trace (snd
      (io_bind (console_print (rich env) ''[bold red]An error occurred:[/bold red] '' (str_exn e))
         (\<lambda>_. io_return True) t)))"
      by (intro io_bind_mem console_print_mem) (simp_all add: io_return_def)
  qed
  moreover have "command_history (snd (cli_turn env ''   '' s)) = command_history s @ [[]]"
    using cli_turn_history [of env "''   ''" s] r by (simp add: u)
  ultimately show ?thesis by simp
qed

text \<open>The panel does drop a blank input: \<^verbatim>\<open>process_command\<close> returns at once.\<close>

lemma process_command_blank:
  "strip text = [] \<Longrightarrow> process_command env text s = s"
  by (simp add: process_command_def)

text \<open>
  Rich's answer to the first line printed in the example of claim C4: the closing tag
  stands at index 37 of the line.
\<close>

lemma unmatched_closing_q_lines:
  "unmatched_closing_q ''[bold red]Error:[/bold red]  use del [/q] instead'' =
     Some (''closing tag '' @ [CHR 0x27] @ ''[/q]'' @ [CHR 0x27] @ '' at position 37 doesn''
           @ [CHR 0x27] @ ''t match any open tag'')"
  by (simp add: unmatched_closing_q_def str_nat.simps)

text \<open>
  Claim C4 (the code departs from it in the CLI). A reply that starts with \<^verbatim>\<open>ERROR:\<close>
  should be displayed without that prefix. \<^verbatim>\<open>run\<close> hands the reply to Rich inside a
  markup line. For the reply \<^verbatim>\<open>ERROR: use del [/q] instead\<close> the tag \<^verbatim>\<open>[/q]\<close> closes
  nothing and the print raises \<^verbatim>\<open>MarkupError\<close>; the inner handler prints the message of
  that exception, which quotes the tag, and raises again; so does the outer handler,
  and the third \<^verbatim>\<open>MarkupError\<close> leaves \<^verbatim>\<open>run\<close>. Nothing of the reply was printed: the
  trace holds the question and the model call only.
\<close>

theorem error_reply_with_markup_crashes:
  "cli_turn
       \<lparr>file_write = Written, interpreter = Ran [] [] 0,
        attempts = (\<lambda>i. Done (Reply ''ERROR: use del [/q] instead'')),
        rich = unmatched_closing_q\<rparr>
       ''delete old logs'' initial =
     (Inl (MarkupError (''closing tag '' @ [CHR 0x27] @ ''[/q]'' @ [CHR 0x27]
             @ '' at position 53 doesn'' @ [CHR 0x27] @ ''t match any open tag'')),
      \<lparr>tempfile = None,
       trace = [Ask, ModelCall (cli_prompt ''delete old logs'')],
       command_history = [''delete old logs'']\<rparr>)"
  by (simp add: cli_turn_def cli_request_def cli_handle_response_def io_defs
      get_gemini_response_first_reply emit_def initial_def
      strip_def lstrip_def rstrip_def isspace_def lower_def lower_char_def startswith_def
      console_print_def rich_raises_def unmatched_closing_q_def str_nat.simps Let_def)

text \<open>
  What does hold for every reply that starts with \<^verbatim>\<open>ERROR:\<close>: neither front end goes
  on to the script runner, and the panel shows the reply without its first six
  characters in one bubble. The CLI prints the reply without its first six characters,
  after the red label, and offers the fallback, when the rest of the reply holds no
  square bracket.
\<close>

lemma error_reply_never_reaches_runner:
  assumes "startswith response ''ERROR:''"
  shows "tempfile (snd (cli_handle_response cenv (Some response) s)) = tempfile s
       \<and> filter runner_event (trace (snd (cli_handle_response cenv (Some response) s)))
           = filter runner_event (trace s)
       \<and> handle_gemini_response genv response t =
           t\<lparr>trace := trace t @ [AddMessage (drop 6 response) False]\<rparr>"
  using assms cli_handle_response_frame [of cenv "Some response" s]
  by (simp add: handle_gemini_response_def add_message_def emit_def)

lemma error_reply_without_markup:
  assumes "startswith response ''ERROR:''" and "CHR ''['' \<notin> set (drop 6 response)"
  shows "cli_handle_response cenv (Some response) s =
           (Inr (), offer_fallback
              (emit (Print (''[bold red]Error:[/bold red] '' @ drop 6 response)) s))"
  using assms
  by (simp add: cli_handle_response_def io_defs console_print_plain)

text \<open>
  On a whole turn whose first attempt brings such a refusal: the CLI asks, records the
  request, calls the model once, prints the reason and offers the fallback; the panel
  shows the request, calls the model once and shows the reason. No call of the script
  runner appears.
\<close>

lemma cli_turn_refusal:
  assumes "is_request (strip line)" and "attempts env 0 = Done (Reply response)"
    and "startswith response ''ERROR:''" and "CHR ''['' \<notin> set (drop 6 response)"
  shows "cli_turn env line s =
     (Inr True, offer_fallback
        (emit (Print (''[bold red]Error:[/bold red] '' @ drop 6 response))
           (emit (ModelCall (cli_prompt (strip line)))
              ((emit Ask s)\<lparr>command_history := command_history s @ [strip line]\<rparr>))))"
  using assms
  by (simp add: cli_turn_def is_request_def cli_request_def cli_handle_response_def io_defs
      get_gemini_response_first_reply Let_def console_print_plain)

lemma process_command_refusal:
  assumes "strip text \<noteq> []" and "calls env 0 = Reply response"
    and "startswith response ''ERROR:''"
  shows "process_command env text s =
     s\<lparr>trace := trace s @
       [AddMessage (strip text) True, ModelCall (gui_prompt (strip text)),
        AddMessage (drop 6 response) False]\<rparr>"
  using assms
  by (simp add: process_command_def worker_run_first_reply handle_gemini_response_def
      add_message_def emit_def Let_def)

text \<open>
  Every \<^verbatim>\<open>local:\<close> line, in any letter case and for every answer of the world, takes the
  same course as the one of claim C5: the batch file is written with the trimmed
  command, the interpreter is not started, the model is not called, the history is left
  alone, and the turn ends in the outer handler's message.
\<close>

lemma cli_turn_local:
  assumes "startswith (lower (strip line)) ''local:''"
  shows "fst (cli_turn env line s) = Inr True
       \<and> trace (snd (cli_turn env line s)) =
           trace s @ [Ask, OpenWrite (''@echo off'' @ crlf @ strip (drop 6 (strip line))),
             Print (''[bold red]An error occurred:[/bold red] ''
                    @ no_attribute ''GemilotCLI'' ''output_area'')]
       \<and> command_history (snd (cli_turn env line s)) = command_history s"
proof -
  from assms have nr: "lower (strip line) \<noteq> ''exit''" "lower (strip line) \<noteq> ''help''"
    "lower (strip line) \<noteq> ''history''"
    by (auto simp add: startswith_def)
  obtain r s1 where loc:
    "execute_local_command env (strip (drop 6 (strip line))) (emit Ask s) = (r, s1)"
    by (cases "execute_local_command env (strip (drop 6 (strip line))) (emit Ask s)")
  from loc have r: "r = Inl (AttributeError (no_attribute ''GemilotCLI'' ''output_area''))"
    using execute_local_command_raises [of env "strip (drop 6 (strip line))" "emit Ask s"]
    by simp
  from loc have t: "trace s1 =
      trace s @ [Ask, OpenWrite (''@echo off'' @ crlf @ strip (drop 6 (strip line)))]"
    using execute_local_command_trace [of env "strip (drop 6 (strip line))" "emit Ask s"]
    by (simp add: strip_idem)
  from loc have h: "command_history s1 = command_history s"
    using execute_local_command_history [of env "strip (drop 6 (strip line))" "emit Ask s"]
    by simp
  have plain: "CHR ''['' \<notin> set (no_attribute ''GemilotCLI'' ''output_area'')"
    by (simp add: no_attribute_def)
  from assms nr loc r t h show ?thesis
    by (simp add: cli_turn_def Let_def io_defs console_print_plain [OF plain])
qed

end
